theory Spec2Isabelle
  imports Complex_Main
begin

section \<open>Python values and errors\<close>

text \<open>
  The module \<open>nltools/utils.py\<close> is modelled function by function. An exception raised
  by the Python code is a value \<open>Inl e\<close> of the result; a returned value is \<open>Inr v\<close>.
\<close>

datatype py_error = ValueError string | IndexError | ZeroDivisionError

text \<open>
  A double is modelled as an exact real number or one of the three non-finite values of
  IEEE arithmetic. Rounding, overflow, underflow and the sign of zero are not modelled: the
  arithmetic on finite values is the arithmetic of the reals.
\<close>

datatype pyfloat = Fin real | PInf | NInf | NaN

fun is_finite :: "pyfloat \<Rightarrow> bool" where
  "is_finite (Fin x) = True"
| "is_finite PInf = False"
| "is_finite NInf = False"
| "is_finite NaN = False"

fun fl_neg :: "pyfloat \<Rightarrow> pyfloat" where
  "fl_neg (Fin x) = Fin (- x)"
| "fl_neg PInf = NInf"
| "fl_neg NInf = PInf"
| "fl_neg NaN = NaN"

fun fl_add :: "pyfloat \<Rightarrow> pyfloat \<Rightarrow> pyfloat" where
  "fl_add (Fin x) (Fin y) = Fin (x + y)"
| "fl_add NaN v = NaN"
| "fl_add v NaN = NaN"
| "fl_add PInf NInf = NaN"
| "fl_add NInf PInf = NaN"
| "fl_add PInf v = PInf"
| "fl_add v PInf = PInf"
| "fl_add NInf v = NInf"
| "fl_add v NInf = NInf"

definition fl_sub :: "pyfloat \<Rightarrow> pyfloat \<Rightarrow> pyfloat" where
  "fl_sub a b = fl_add a (fl_neg b)"

text \<open>A finite factor times an infinity: zero times infinity is NaN.\<close>

definition scale_inf :: "real \<Rightarrow> pyfloat \<Rightarrow> pyfloat" where
  "scale_inf x v = (if x = 0 then NaN else if 0 < x then v else fl_neg v)"

fun fl_mul :: "pyfloat \<Rightarrow> pyfloat \<Rightarrow> pyfloat" where
  "fl_mul (Fin x) (Fin y) = Fin (x * y)"
| "fl_mul NaN v = NaN"
| "fl_mul v NaN = NaN"
| "fl_mul (Fin x) v = scale_inf x v"
| "fl_mul v (Fin y) = scale_inf y v"
| "fl_mul PInf v = v"
| "fl_mul NInf v = fl_neg v"

text \<open>
  Division of numpy values: a zero divisor does not raise, it gives an infinity
  (non-zero dividend) or NaN (zero dividend).
\<close>

fun fl_div :: "pyfloat \<Rightarrow> pyfloat \<Rightarrow> pyfloat" where
  "fl_div NaN v = NaN"
| "fl_div v NaN = NaN"
| "fl_div (Fin x) (Fin y) =
     (if y = 0 then (if x = 0 then NaN else if 0 < x then PInf else NInf)
      else Fin (x / y))"
| "fl_div (Fin x) v = Fin 0"
| "fl_div v (Fin y) = (if 0 \<le> y then v else fl_neg v)"
| "fl_div v w = NaN"

text \<open>\<open>ndarray.sum()\<close>: the sum of no samples is \<open>0.0\<close>.\<close>

fun fl_sum :: "pyfloat list \<Rightarrow> pyfloat" where
  "fl_sum [] = Fin 0"
| "fl_sum (x # xs) = fl_add x (fl_sum xs)"

section \<open>The library functions the HRF family calls\<close>

text \<open>
  \<open>int(x)\<close> of a Python float truncates toward zero. \<open>np.linspace\<close> of the numpy
  releases the module was written for coerces a float \<open>num\<close> with \<open>int\<close>, rejects a
  negative count, and returns \<open>num\<close> samples \<open>i * step + start\<close> with
  \<open>step = (stop - start) / (num - 1)\<close>, the last one set to \<open>stop\<close>; one sample is
  \<open>start\<close> alone.
\<close>

definition py_int :: "real \<Rightarrow> int" where
  "py_int x = (if 0 \<le> x then \<lfloor>x\<rfloor> else \<lceil>x\<rceil>)"

definition linspace :: "real \<Rightarrow> real \<Rightarrow> real \<Rightarrow> py_error + real list" where
  "linspace start stop num =
     (let n = py_int num in
      if n < 0 then Inl (ValueError ''Number of samples must be non-negative.'')
      else if 1 < n then
        (let step = (stop - start) / real_of_int (n - 1)
         in Inr ((map (\<lambda>i. real i * step + start) [0..<nat n])[nat n - 1 := stop]))
      else Inr (map (\<lambda>i. real i * (stop - start) + start) [0..<nat n]))"

text \<open>
  \<open>scipy.stats.gamma.pdf(x, a, loc=0, scale=1)\<close>: with \<open>y = (x - loc) / scale\<close> the
  value is NaN for an invalid shape or scale, zero left of the support \<open>y \<ge> 0\<close>, and
  \<open>y ^ (a - 1) * exp (- y) / \<Gamma>(a) / scale\<close> on it. At \<open>y = 0\<close> the density is \<open>0\<close>
  for \<open>a > 1\<close>, \<open>1 / scale\<close> for \<open>a = 1\<close> and infinite for \<open>a < 1\<close>. The Gamma
  function \<open>G\<close> belongs to the library and is a parameter of the model.
\<close>

definition gamma_pdf :: "(real \<Rightarrow> real) \<Rightarrow> real \<Rightarrow> real \<Rightarrow> real \<Rightarrow> real \<Rightarrow> pyfloat" where
  "gamma_pdf G x a loc scale =
     (let y = (x - loc) / scale in
      if \<not> (0 < a \<and> 0 < scale) then NaN
      else if y < 0 then Fin 0
      else if y = 0 then (if 1 < a then Fin 0 else if a = 1 then Fin (1 / scale) else PInf)
      else Fin (y powr (a - 1) * exp (- y) / G a / scale))"

text \<open>
  The Gamma function at the positive integers, \<open>\<Gamma>(n) = (n - 1)!\<close>: the shapes 6 and 16
  of the SPM model are evaluated with it.
\<close>

definition gamma_at_integers :: "real \<Rightarrow> real" where
  "gamma_at_integers a = fact (nat \<lfloor>a\<rfloor> - 1)"


section \<open>The hemodynamic response functions\<close>

text \<open>
  Lines 182 to 184 of \<open>_gamma_difference_hrf\<close>: the time grid. As the docstring says,
  \<open>tr\<close>, \<open>time_length\<close> and \<open>onset\<close> are floats and \<open>oversampling\<close> is an integer, so
  the divisions are divisions of Python floats, which raise on a zero divisor. The float
  \<open>time_length / dt\<close> goes to \<open>np.linspace\<close> as it is.
\<close>

definition time_grid :: "real \<Rightarrow> int \<Rightarrow> real \<Rightarrow> real \<Rightarrow> py_error + real list" where
  "time_grid tr oversampling time_length onset =
     (if oversampling = 0 then Inl ZeroDivisionError
      else let dt = tr / real_of_int oversampling in
        if dt = 0 then Inl ZeroDivisionError
        else case linspace 0 time_length (time_length / dt) of
               Inl e \<Rightarrow> Inl e
             | Inr time_stamps \<Rightarrow> Inr (map (\<lambda>t. t - onset / dt) time_stamps))"

text \<open>
  Lines 185 to 187: the difference of the two gamma densities on the grid, before the
  normalisation. The third positional argument of \<open>gamma.pdf\<close> is \<open>loc\<close>.
\<close>

definition hrf_before_normalization ::
  "(real \<Rightarrow> real) \<Rightarrow> real \<Rightarrow> int \<Rightarrow> real \<Rightarrow> real \<Rightarrow> real \<Rightarrow> real \<Rightarrow> real \<Rightarrow> real \<Rightarrow> real
     \<Rightarrow> py_error + pyfloat list" where
  "hrf_before_normalization G tr oversampling time_length onset
       delay undershoot dispersion u_dispersion ratio =
     (case time_grid tr oversampling time_length onset of
        Inl e \<Rightarrow> Inl e
      | Inr time_stamps \<Rightarrow>
          let dt = tr / real_of_int oversampling in
          if dispersion = 0 then Inl ZeroDivisionError
          else if u_dispersion = 0 then Inl ZeroDivisionError
          else Inr (map (\<lambda>t. fl_sub (gamma_pdf G t (delay / dispersion) (dt / dispersion) 1)
                              (fl_mul (Fin ratio)
                                 (gamma_pdf G t (undershoot / u_dispersion) (dt / u_dispersion) 1)))
                     time_stamps))"

text \<open>Line 188: \<open>hrf /= hrf.sum()\<close>, with no test of the divisor.\<close>

definition normalize :: "pyfloat list \<Rightarrow> pyfloat list" where
  "normalize hrf = map (\<lambda>v. fl_div v (fl_sum hrf)) hrf"

definition gamma_difference_hrf ::
  "(real \<Rightarrow> real) \<Rightarrow> real \<Rightarrow> int \<Rightarrow> real \<Rightarrow> real \<Rightarrow> real \<Rightarrow> real \<Rightarrow> real \<Rightarrow> real \<Rightarrow> real
     \<Rightarrow> py_error + pyfloat list" where
  "gamma_difference_hrf G tr oversampling time_length onset
       delay undershoot dispersion u_dispersion ratio =
     (case hrf_before_normalization G tr oversampling time_length onset
             delay undershoot dispersion u_dispersion ratio of
        Inl e \<Rightarrow> Inl e
      | Inr hrf \<Rightarrow> Inr (normalize hrf))"

text \<open>The default values of the keyword arguments of \<open>_gamma_difference_hrf\<close>.\<close>

definition default_delay :: real where "default_delay = 6"
definition default_undershoot :: real where "default_undershoot = 16"
definition default_dispersion :: real where "default_dispersion = 1"
definition default_u_dispersion :: real where "default_u_dispersion = 1"
definition default_ratio :: real where "default_ratio = 167 / 1000"

definition spm_hrf :: "(real \<Rightarrow> real) \<Rightarrow> real \<Rightarrow> int \<Rightarrow> real \<Rightarrow> real \<Rightarrow> py_error + pyfloat list" where
  "spm_hrf G tr oversampling time_length onset =
     gamma_difference_hrf G tr oversampling time_length onset
       default_delay default_undershoot default_dispersion default_u_dispersion default_ratio"

definition glover_hrf :: "(real \<Rightarrow> real) \<Rightarrow> real \<Rightarrow> int \<Rightarrow> real \<Rightarrow> real \<Rightarrow> py_error + pyfloat list" where
  "glover_hrf G tr oversampling time_length onset =
     gamma_difference_hrf G tr oversampling time_length onset 6 12 (9 / 10) (9 / 10) (35 / 100)"





section \<open>The list helpers\<close>

text \<open>
  \<open>all_same\<close> hands \<open>np.all\<close> a generator expression. \<open>np.all\<close> reduces the elements
  of a sequence; any other object, a generator among them, is wrapped as one element and
  never iterated, and the result has the truth value of that object. A generator object
  is truthy.
\<close>

datatype np_operand = Sequence "bool list" | Generator "bool list"

fun np_all :: "np_operand \<Rightarrow> bool" where
  "np_all (Sequence bs) = list_all (\<lambda>b. b) bs"
| "np_all (Generator g) = True"

definition all_same :: "'a list \<Rightarrow> bool" where
  "all_same items = np_all (Generator (map (\<lambda>x. x = items ! 0) items))"







section \<open>Definitions used to state the properties\<close>


text \<open>
  The samples as the specification words them: the third argument of the density read as
  its scale, \<open>Gamma(shape = delay / dispersion, scale = dt / dispersion)\<close>.
\<close>

definition hrf_as_specified ::
  "(real \<Rightarrow> real) \<Rightarrow> real \<Rightarrow> int \<Rightarrow> real \<Rightarrow> real \<Rightarrow> real \<Rightarrow> real \<Rightarrow> real \<Rightarrow> real \<Rightarrow> real
     \<Rightarrow> py_error + pyfloat list" where
  "hrf_as_specified G tr oversampling time_length onset
       delay undershoot dispersion u_dispersion ratio =
     (case time_grid tr oversampling time_length onset of
        Inl e \<Rightarrow> Inl e
      | Inr time_stamps \<Rightarrow>
          let dt = tr / real_of_int oversampling in
          if dispersion = 0 then Inl ZeroDivisionError
          else if u_dispersion = 0 then Inl ZeroDivisionError
          else Inr (map (\<lambda>t. fl_sub (gamma_pdf G t (delay / dispersion) 0 (dt / dispersion))
                              (fl_mul (Fin ratio)
                                 (gamma_pdf G t (undershoot / u_dispersion) 0 (dt / u_dispersion))))
                     time_stamps))"


section \<open>The time grid\<close>












section \<open>Sums and the normalisation\<close>

lemma fl_add_Fin: "fl_add x y = Fin s \<Longrightarrow> \<exists>a b. x = Fin a \<and> y = Fin b \<and> s = a + b"
  by (cases x; cases y) simp_all

lemma fl_sum_Fin: "fl_sum xs = Fin s \<Longrightarrow> \<exists>rs. xs = map Fin rs \<and> sum_list rs = s"
proof (induction xs arbitrary: s)
  case Nil
  then show ?case by simp
next
  case (Cons x xs)
  from Cons.prems have "fl_add x (fl_sum xs) = Fin s" by simp
  then obtain a b where x: "x = Fin a" and b: "fl_sum xs = Fin b" and s: "s = a + b"
    using fl_add_Fin by blast
  from Cons.IH [OF b] obtain rs where rs: "xs = map Fin rs" and sum: "sum_list rs = b" by blast
  have "x # xs = map Fin (a # rs) \<and> sum_list (a # rs) = s" using x rs sum s by simp
  then show ?case by (rule exI)
qed







lemma normalize_zero_sum:
  assumes "fl_sum h = Fin 0"
  shows "normalize h = map (\<lambda>v. fl_div v (Fin 0)) h" and "\<forall>v \<in> set (normalize h). \<not> is_finite v"
proof -
  show eq: "normalize h = map (\<lambda>v. fl_div v (Fin 0)) h" using assms by (simp add: normalize_def)
  from fl_sum_Fin [OF assms] obtain rs where rs: "h = map Fin rs" by blast
  show "\<forall>v \<in> set (normalize h). \<not> is_finite v"
  proof
    fix v assume "v \<in> set (normalize h)"
    then have "v \<in> (\<lambda>w. fl_div w (Fin 0)) ` set h" by (simp only: eq set_map)
    then obtain w where w: "w \<in> set h" and v: "v = fl_div w (Fin 0)" by blast
    from w rs obtain r where "w = Fin r" by auto
    with v show "\<not> is_finite v" by simp
  qed
qed




lemma norm_2: "c \<noteq> 0 \<Longrightarrow> normalize [Fin 0, Fin c] = [Fin 0, Fin 1]"
  by (simp add: normalize_def)

section \<open>The kernel before and after the normalisation\<close>

lemma raw_Inr:
  assumes "hrf_before_normalization G tr os tlen onset delay undershoot dispersion u_dispersion ratio
             = Inr h"
  obtains ts where "time_grid tr os tlen onset = Inr ts"
    and "dispersion \<noteq> 0" and "u_dispersion \<noteq> 0"
    and "h = map (\<lambda>t. fl_sub (gamma_pdf G t (delay / dispersion)
                                  ((tr / real_of_int os) / dispersion) 1)
                       (fl_mul (Fin ratio)
                          (gamma_pdf G t (undershoot / u_dispersion)
                             ((tr / real_of_int os) / u_dispersion) 1))) ts"
proof (cases "time_grid tr os tlen onset")
  case (Inl e)
  with assms have False by (simp add: hrf_before_normalization_def)
  then show ?thesis ..
next
  case (Inr ts)
  with assms have "dispersion \<noteq> 0" and "u_dispersion \<noteq> 0"
    by (auto simp add: hrf_before_normalization_def Let_def split: if_splits)
  moreover from Inr assms
  have "h = map (\<lambda>t. fl_sub (gamma_pdf G t (delay / dispersion)
                                  ((tr / real_of_int os) / dispersion) 1)
                       (fl_mul (Fin ratio)
                          (gamma_pdf G t (undershoot / u_dispersion)
                             ((tr / real_of_int os) / u_dispersion) 1))) ts"
    by (simp add: hrf_before_normalization_def Let_def split: if_splits)
  ultimately show ?thesis using Inr that by blast
qed





lemma kernel_of_raw:
  assumes "hrf_before_normalization G tr os tlen onset delay undershoot dispersion u_dispersion ratio
             = Inr h"
  shows "gamma_difference_hrf G tr os tlen onset delay undershoot dispersion u_dispersion ratio
           = Inr (normalize h)"
  using assms by (simp add: gamma_difference_hrf_def)











section \<open>The derivative wrappers\<close>




section \<open>Evaluation on small grids\<close>

lemma upt_2: "[0..<2] = [0, Suc 0]"
  by (simp add: numeral_2_eq_2)

lemma grid_2_1_4: "time_grid 2 1 4 0 = Inr [0, 4]"
  by (simp add: time_grid_def linspace_def py_int_def Let_def upt_2)

lemma grid_2_1_4_10: "time_grid 2 1 4 10 = Inr [-5, -1]"
  by (simp add: time_grid_def linspace_def py_int_def Let_def upt_2)




lemma fact_5: "fact 5 = (120 :: real)"
  by (simp add: fact_numeral)

lemma fact_15: "fact 15 = (1307674368000 :: real)"
  by (simp add: fact_numeral)

lemma raw_2_1_4: "hrf_before_normalization gamma_at_integers 2 1 4 0 6 16 1 1 (167 / 1000)
   = Inr [Fin 0, Fin (exp (- 2) * (32 / 120 - 167 / 1000 * (32768 / 1307674368000)))]"
  by (simp add: hrf_before_normalization_def grid_2_1_4 gamma_pdf_def gamma_at_integers_def
        fl_sub_def Let_def fact_5 fact_15 algebra_simps)

lemma spec_2_1_4: "map (\<lambda>t. fl_sub (gamma_pdf gamma_at_integers t (6 / 1) 0 (2 / 1))
                   (fl_mul (Fin (167 / 1000)) (gamma_pdf gamma_at_integers t (16 / 1) 0 (2 / 1)))) [0, 4]
   = [Fin 0, Fin (exp (- 2) * (32 / 120 - 167 / 1000 * (32768 / 1307674368000)) / 2)]"
  by (simp add: gamma_pdf_def gamma_at_integers_def
        fl_sub_def Let_def fact_5 fact_15 algebra_simps)

lemma c_nonzero: "exp (- 2) * (32 / 120 - 167 / 1000 * (32768 / 1307674368000)) \<noteq> (0::real)"
  by simp

lemma kernel_2_1_4:
  "gamma_difference_hrf gamma_at_integers 2 1 4 0 6 16 1 1 (167 / 1000) = Inr [Fin 0, Fin 1]"
  using kernel_of_raw [OF raw_2_1_4] norm_2 [OF c_nonzero] by simp





lemma raw_2_1_4_10:
  "hrf_before_normalization gamma_at_integers 2 1 4 10 6 16 1 1 (167 / 1000) = Inr [Fin 0, Fin 0]"
  by (simp add: hrf_before_normalization_def grid_2_1_4_10 gamma_pdf_def fl_sub_def Let_def)

section \<open>The unit sum of the kernel\<close>




section \<open>The samples before the normalisation\<close>

text \<open>
  C2, amended: before the normalisation the function computes, at every point of the
  shifted grid, a gamma density with shape \<open>delay / dispersion\<close>, location
  \<open>dt / dispersion\<close> and scale 1, minus \<open>ratio\<close> times a gamma density with shape
  \<open>undershoot / u_dispersion\<close>, location \<open>dt / u_dispersion\<close> and scale 1.
\<close>

theorem raw_kernel_pointwise:
  assumes "hrf_before_normalization G tr os tlen onset delay undershoot dispersion u_dispersion ratio
             = Inr h"
  shows "\<exists>ts. time_grid tr os tlen onset = Inr ts \<and> length h = length ts
           \<and> (\<forall>i < length ts.
                 h ! i = fl_sub (gamma_pdf G (ts ! i) (delay / dispersion)
                                   ((tr / real_of_int os) / dispersion) 1)
                           (fl_mul (Fin ratio)
                              (gamma_pdf G (ts ! i) (undershoot / u_dispersion)
                                 ((tr / real_of_int os) / u_dispersion) 1)))"
proof -
  from assms obtain ts where ts: "time_grid tr os tlen onset = Inr ts"
    and h: "h = map (\<lambda>t. fl_sub (gamma_pdf G t (delay / dispersion)
                                  ((tr / real_of_int os) / dispersion) 1)
                       (fl_mul (Fin ratio)
                          (gamma_pdf G t (undershoot / u_dispersion)
                             ((tr / real_of_int os) / u_dispersion) 1))) ts"
    by (rule raw_Inr)
  show ?thesis
  proof (intro exI conjI allI impI)
    show "time_grid tr os tlen onset = Inr ts" by (rule ts)
    show "length h = length ts" unfolding h by simp
    fix i assume "i < length ts"
    then show "h ! i = fl_sub (gamma_pdf G (ts ! i) (delay / dispersion)
                                   ((tr / real_of_int os) / dispersion) 1)
                           (fl_mul (Fin ratio)
                              (gamma_pdf G (ts ! i) (undershoot / u_dispersion)
                                 ((tr / real_of_int os) / u_dispersion) 1))"
      unfolding h by simp
  qed
qed

theorem raw_kernel_pointwise_witness:
  "hrf_before_normalization gamma_at_integers 2 1 4 0 6 16 1 1 (167 / 1000)
     = Inr [Fin 0, Fin (exp (- 2) * (32 / 120 - 167 / 1000 * (32768 / 1307674368000)))]
   \<and> time_grid 2 1 4 0 = Inr [0, 4]
   \<and> Fin (exp (- 2) * (32 / 120 - 167 / 1000 * (32768 / 1307674368000)))
         = fl_sub (gamma_pdf gamma_at_integers 4 (6 / 1) ((2 / real_of_int 1) / 1) 1)
             (fl_mul (Fin (167 / 1000))
                (gamma_pdf gamma_at_integers 4 (16 / 1) ((2 / real_of_int 1) / 1) 1))"
proof -
  let ?c = "exp (- 2) * (32 / 120 - 167 / 1000 * (32768 / 1307674368000)) :: real"
  from raw_kernel_pointwise [OF raw_2_1_4] obtain ts where ts: "time_grid 2 1 4 0 = Inr ts"
    and pt: "\<forall>i < length ts. [Fin 0, Fin ?c] ! i
               = fl_sub (gamma_pdf gamma_at_integers (ts ! i) (6 / 1) ((2 / real_of_int 1) / 1) 1)
                   (fl_mul (Fin (167 / 1000))
                      (gamma_pdf gamma_at_integers (ts ! i) (16 / 1) ((2 / real_of_int 1) / 1) 1))"
    by blast
  from ts grid_2_1_4 have eq: "ts = [0, 4]" by simp
  have "1 < length ts" unfolding eq by simp
  with pt have "[Fin 0, Fin ?c] ! 1
               = fl_sub (gamma_pdf gamma_at_integers (ts ! 1) (6 / 1) ((2 / real_of_int 1) / 1) 1)
                   (fl_mul (Fin (167 / 1000))
                      (gamma_pdf gamma_at_integers (ts ! 1) (16 / 1) ((2 / real_of_int 1) / 1) 1))"
    by blast
  then have "Fin ?c
         = fl_sub (gamma_pdf gamma_at_integers 4 (6 / 1) ((2 / real_of_int 1) / 1) 1)
             (fl_mul (Fin (167 / 1000))
                (gamma_pdf gamma_at_integers 4 (16 / 1) ((2 / real_of_int 1) / 1) 1))"
    unfolding eq by simp
  with raw_2_1_4 grid_2_1_4 show ?thesis by blast
qed

text \<open>
  Reading the third argument as a scale gives other samples: on the grid \<open>[0, 4]\<close> with
  \<open>dt = 2\<close> the point 4 is \<open>y = 2\<close> under both readings, and the scale reading divides
  the density by the scale 2.
\<close>

theorem scale_reading_counterexample:
  "hrf_before_normalization gamma_at_integers 2 1 4 0 6 16 1 1 (167 / 1000)
     \<noteq> hrf_as_specified gamma_at_integers 2 1 4 0 6 16 1 1 (167 / 1000)"
proof -
  have "hrf_as_specified gamma_at_integers 2 1 4 0 6 16 1 1 (167 / 1000)
     = Inr [Fin 0, Fin (exp (- 2) * (32 / 120 - 167 / 1000 * (32768 / 1307674368000)) / 2)]"
    using spec_2_1_4 by (simp add: hrf_as_specified_def grid_2_1_4)
  then show ?thesis using c_nonzero by (simp add: raw_2_1_4)
qed

section \<open>The shape of the time grid\<close>



section \<open>The derivatives as forward differences\<close>



section \<open>The parameters of the named variants\<close>

text \<open>
  C5: \<open>spm_hrf\<close> is \<open>_gamma_difference_hrf\<close> with delay 6, undershoot 16, dispersion 1,
  u_dispersion 1 and ratio 0.167; \<open>glover_hrf\<close> is \<open>_gamma_difference_hrf\<close> with delay 6,
  undershoot 12, dispersion 0.9, u_dispersion 0.9 and ratio 0.35.
\<close>

theorem named_variants_parameters:
  "spm_hrf G tr os tlen onset = gamma_difference_hrf G tr os tlen onset 6 16 1 1 (167 / 1000)
   \<and> glover_hrf G tr os tlen onset
       = gamma_difference_hrf G tr os tlen onset 6 12 (9 / 10) (9 / 10) (35 / 100)"
  by (simp add: spm_hrf_def glover_hrf_def default_delay_def default_undershoot_def
        default_dispersion_def default_u_dispersion_def default_ratio_def)

theorem named_variants_parameters_witness:
  "spm_hrf gamma_at_integers 2 1 4 0 = Inr [Fin 0, Fin 1]
   \<and> gamma_difference_hrf gamma_at_integers 2 1 4 0 6 16 1 1 (167 / 1000) = Inr [Fin 0, Fin 1]"
  using named_variants_parameters [of gamma_at_integers 2 1 4 0] kernel_2_1_4 by simp

section \<open>The length of the kernels\<close>




section \<open>A zero sum\<close>

text \<open>
  C7: when the samples before the normalisation sum to exactly zero the function does not
  raise: it returns every sample divided by zero, and each returned value is non-finite.
\<close>

theorem zero_sum_not_guarded:
  assumes "hrf_before_normalization G tr os tlen onset delay undershoot dispersion u_dispersion ratio
             = Inr h"
    and "fl_sum h = Fin 0"
  shows "gamma_difference_hrf G tr os tlen onset delay undershoot dispersion u_dispersion ratio
           = Inr (map (\<lambda>v. fl_div v (Fin 0)) h)
         \<and> (\<forall>v \<in> set (map (\<lambda>v. fl_div v (Fin 0)) h). \<not> is_finite v)"
  using kernel_of_raw [OF assms(1)] normalize_zero_sum [OF assms(2)] by simp

theorem zero_sum_not_guarded_witness:
  "hrf_before_normalization gamma_at_integers 2 1 4 10 6 16 1 1 (167 / 1000) = Inr [Fin 0, Fin 0]
   \<and> fl_sum [Fin 0, Fin 0] = Fin 0
   \<and> gamma_difference_hrf gamma_at_integers 2 1 4 10 6 16 1 1 (167 / 1000) = Inr [NaN, NaN]
   \<and> \<not> is_finite NaN"
  using zero_sum_not_guarded [OF raw_2_1_4_10] raw_2_1_4_10 by simp

section \<open>Properties of the list helpers\<close>


text \<open>
  C9: for every non-empty list \<open>items\<close>, \<open>all_same items\<close> is truthy whether or not the
  elements are equal: \<open>np.all\<close> receives the generator object, not the results of the
  comparisons.
\<close>

theorem all_same_always_truthy:
  "items \<noteq> [] \<Longrightarrow> all_same items \<and>
     (np_all (Sequence (map (\<lambda>x. x = items ! 0) items)) \<longleftrightarrow> (\<forall>x \<in> set items. x = hd items))"
  by (cases items) (auto simp: all_same_def list_all_iff)

theorem all_same_always_truthy_witness:
  "[1, 2 :: int] \<noteq> [] \<and> all_same [1, 2 :: int]
     \<and> \<not> np_all (Sequence (map (\<lambda>x. x = [1, 2 :: int] ! 0) [1, 2]))"
  using all_same_always_truthy [of "[1, 2 :: int]"] by simp



end
